theory Spec2Isabelle
  imports Complex_Main
begin

section \<open>IEC 61672-1:2013: time weighting and time averaging of sound pressure\<close>

text \<open>
  A shallow embedding of \<^verbatim>\<open>acoustics/standards/iec_61672_1_2013.py\<close>.

  Finite floating-point numbers are modelled by the reals: there is no rounding and no
  overflow. The special values that NumPy produces instead of raising (a division by
  zero, a logarithm of a non-positive number) are modelled by the type \<open>fval\<close>.
  Python exceptions are values of type \<open>error\<close>, and a function that can raise
  returns \<open>error + 'a\<close>.
\<close>

subsection \<open>Errors, special values, arrays\<close>

datatype error = ValueError | IndexError

datatype fval = Fin real | PInf | NInf | NaN

text \<open>
  A NumPy array: its shape and its elements in row-major (C) order. An array is
  well formed when it has as many elements as its shape says.
\<close>

record 'a ndarray =
  shape :: "nat list"
  data :: "'a list"


subsection \<open>The frequency weighting tables\<close>

definition NOMINAL_FREQUENCIES :: "real list" where
  "NOMINAL_FREQUENCIES = [10.0, 12.5, 16.0, 20.0, 25.0, 31.5, 40.0, 50.0, 63.0, 80.0,
     100.0, 125.0, 160.0, 200.0, 250.0, 315.0, 400.0, 500.0, 630.0,
     800.0, 1000.0, 1250.0, 1600.0, 2000.0, 2500.0, 3150.0, 4000.0, 5000.0,
     6300.0, 8000.0, 10000.0, 12500.0, 16000.0, 20000.0]"

definition WEIGHTING_A :: "real list" where
  "WEIGHTING_A = [-70.4, -63.4, -56.7, -50.5, -44.7, -39.4, -34.6, -30.2, -26.2,
     -22.5, -19.1, -16.1, -13.4, -10.9, -8.6, -6.6, -4.8, -3.2, -1.9,
     -0.8, 0.0, 0.6, 1.0, 1.2, 1.3, 1.2, 1.0, 0.5, -0.1, -1.1, -2.5, -4.3, -6.6, -9.3]"

definition WEIGHTING_C :: "real list" where
  "WEIGHTING_C = [-14.3, -11.2, -8.5, -6.2, -4.4, -3.0, -2.0, -1.3, -0.8, -0.5, -0.3,
     -0.2, -0.1, 0.0, 0.0, 0.0, 0.0, 0.0, 0.0, 0.0, 0, 0.0,
     -0.1, -0.2, -0.3, -0.5, -0.8, -1.3, -2.0, -3.0, -4.4, -6.2, -8.5, -11.2]"

definition WEIGHTING_Z :: "real list" where
  "WEIGHTING_Z = [0, 0, 0, 0, 0, 0, 0, 0, 0, 0, 0, 0, 0,
     0, 0, 0, 0, 0, 0, 0, 0, 0, 0, 0, 0, 0,
     0, 0, 0, 0, 0, 0, 0, 0]"

definition FAST :: real where
  "FAST = 0.125"

definition SLOW :: real where
  "SLOW = 1.000"

subsection \<open>Floating-point operations that return special values\<close>

text \<open>
  NumPy's elementwise division and logarithm do not raise (with NumPy's default error
  settings they warn): a division by zero gives an infinity or NaN, \<^verbatim>\<open>log10(0)\<close> is
  \<^verbatim>\<open>-inf\<close> and \<^verbatim>\<open>log10\<close> of a negative number is NaN.
\<close>

definition fdiv :: "real \<Rightarrow> real \<Rightarrow> fval" where
  "fdiv x d =
     (if d \<noteq> 0 then Fin (x / d)
      else if 0 < x then PInf else if x < 0 then NInf else NaN)"

fun flog10 :: "fval \<Rightarrow> fval" where
  "flog10 (Fin x) = (if 0 < x then Fin (log 10 x) else if x = 0 then NInf else NaN)"
| "flog10 PInf = PInf"
| "flog10 NInf = NaN"
| "flog10 NaN = NaN"

text \<open>Multiplication of a special value by a positive finite constant.\<close>

fun fscale :: "real \<Rightarrow> fval \<Rightarrow> fval" where
  "fscale c (Fin x) = Fin (c * x)"
| "fscale c v = v"

subsection \<open>NumPy array operations\<close>

text \<open>Row \<open>r\<close> of a flat sequence read as rows of length \<open>m\<close>.\<close>

definition row_at :: "nat \<Rightarrow> 'a list \<Rightarrow> nat \<Rightarrow> 'a list" where
  "row_at m xs r = take m (drop (r * m) xs)"

text \<open>
  \<^verbatim>\<open>A[..., 0:stop]\<close>: a slice of the trailing axis. As in Python, a negative stop
  counts from the end and the slice is clipped to the axis; a slice never raises.
\<close>

definition slice_last :: "int \<Rightarrow> 'a ndarray \<Rightarrow> 'a ndarray" where
  "slice_last stop A =
     (let m = last (shape A);
          e = (if stop < 0 then nat (max 0 (stop + int m)) else min (nat stop) m)
      in \<lparr>shape = butlast (shape A) @ [e],
          data = concat (map (\<lambda>r. take e (row_at m (data A) r))
                   [0..<prod_list (butlast (shape A))])\<rparr>)"

text \<open>
  \<^verbatim>\<open>A.reshape(newshape)\<close>: at most one entry of the new shape may be unknown
  (negative); it is inferred from the size of the array, which fails when the known
  entries multiply to zero or do not divide the size. The elements keep their order.
\<close>

definition reshape :: "int list \<Rightarrow> 'a ndarray \<Rightarrow> error + 'a ndarray" where
  "reshape newshape A =
     (let sz = prod_list (shape A);
          known = prod_list (map nat (filter (\<lambda>d. 0 \<le> d) newshape))
      in if length (filter (\<lambda>d. d < 0) newshape) > 1 then Inl ValueError
         else if list_ex (\<lambda>d. d < - 1) newshape then Inl ValueError
         else if list_ex (\<lambda>d. d < 0) newshape then
           (if known = 0 then Inl ValueError
            else if sz mod known \<noteq> 0 then Inl ValueError
            else Inr \<lparr>shape = map (\<lambda>d. if d < 0 then sz div known else nat d) newshape,
                      data = data A\<rparr>)
         else if known \<noteq> sz then Inl ValueError
         else Inr \<lparr>shape = map nat newshape, data = data A\<rparr>)"

text \<open>
  \<^verbatim>\<open>A.mean(axis=-1)\<close>. In this program the averaged axis has length \<open>n \<ge> 1\<close>
  (\<open>reshape\<close> has failed otherwise), so the quotient is a real number.
\<close>

definition mean_last :: "real ndarray \<Rightarrow> real ndarray" where
  "mean_last A =
     (let m = last (shape A)
      in \<lparr>shape = butlast (shape A),
          data = map (\<lambda>r. sum_list (row_at m (data A) r) / real m)
                   [0..<prod_list (butlast (shape A))]\<rparr>)"

text \<open>\<^verbatim>\<open>A[..., idx]\<close>: one element of every row; a negative index counts from the end.\<close>

definition index_last :: "int \<Rightarrow> 'a ndarray \<Rightarrow> error + 'a ndarray" where
  "index_last idx A =
     (let m = last (shape A);
          j = (if idx < 0 then idx + int m else idx)
      in if 0 \<le> j \<and> j < int m then
           Inr \<lparr>shape = butlast (shape A),
                data = map (\<lambda>r. row_at m (data A) r ! nat j)
                         [0..<prod_list (butlast (shape A))]\<rparr>
         else Inl IndexError)"

definition map_array :: "('a \<Rightarrow> 'b) \<Rightarrow> 'a ndarray \<Rightarrow> 'b ndarray" where
  "map_array f A = \<lparr>shape = shape A, data = map f (data A)\<rparr>"

subsection \<open>SciPy filter design and filtering\<close>

text \<open>
  \<^verbatim>\<open>numpy.poly(roots)\<close>: the coefficients, highest power first, of the monic
  polynomial with the given roots.
\<close>

definition mul_linear :: "real list \<Rightarrow> real \<Rightarrow> real list" where
  "mul_linear c r = map2 (-) (c @ [0]) (map ((*) r) (0 # c))"

definition np_poly :: "real list \<Rightarrow> real list" where
  "np_poly rs = foldl mul_linear [1] rs"

text \<open>\<^verbatim>\<open>numpy.polyval(c, x)\<close> by Horner's rule.\<close>

definition polyval :: "real list \<Rightarrow> real \<Rightarrow> real" where
  "polyval c x = foldl (\<lambda>acc ci. acc * x + ci) 0 c"

text \<open>
  \<^verbatim>\<open>scipy.signal.zpk2tf(z, p, k)\<close>: numerator \<open>k * poly(z)\<close> and denominator
  \<open>poly(p)\<close> of the transfer function with zeros \<open>z\<close>, poles \<open>p\<close> and gain \<open>k\<close>.
\<close>

definition zpk2tf :: "real list \<Rightarrow> real list \<Rightarrow> real \<Rightarrow> real list \<times> real list" where
  "zpk2tf z p k = (map ((*) k) (np_poly z), np_poly p)"

text \<open>
  \<^verbatim>\<open>scipy.signal.normalize(b, a)\<close>: leading zeros of the denominator are dropped,
  both polynomials are divided by the leading denominator coefficient, and leading
  numerator coefficients within \<open>1e-14\<close> of zero are dropped (one is always kept).
  A denominator of zeros only is a \<^verbatim>\<open>ValueError\<close>.
\<close>

definition normalize_tf :: "real list \<Rightarrow> real list \<Rightarrow> error + (real list \<times> real list)" where
  "normalize_tf num den =
     (if list_all (\<lambda>x. x = 0) den then Inl ValueError
      else
        let den1 = dropWhile (\<lambda>x. x = 0) den;
            num1 = map (\<lambda>x. x / hd den1) num;
            den2 = map (\<lambda>x. x / hd den1) den1;
            lz = length (takeWhile (\<lambda>x. \<bar>x\<bar> \<le> 1 / 10 ^ 14) num1);
            lz1 = (if lz = length num1 then lz - 1 else lz)
        in Inr (drop lz1 num1, den2))"

text \<open>
  \<^verbatim>\<open>scipy.signal.bilinear(b, a, fs)\<close>: the substitution
  \<open>s = 2 fs (z - 1) / (z + 1)\<close>, cleared of denominators. Coefficient \<open>j\<close> of a
  transformed polynomial \<open>c\<close> is the sum that SciPy computes with its loops over
  \<open>i\<close>, \<open>k\<close> and \<open>l\<close>; \<open>K - 1\<close> is the common degree of the result.
\<close>

definition bilinear_coeff :: "real list \<Rightarrow> nat \<Rightarrow> real \<Rightarrow> nat \<Rightarrow> real" where
  "bilinear_coeff c K fs j =
     (\<Sum>i \<leftarrow> [0..<length c]. \<Sum>k \<leftarrow> [0..<i + 1]. \<Sum>l \<leftarrow> [0..<K - i].
        if k + l = j
        then real (i choose k) * real ((K - 1 - i) choose l) * c ! (length c - 1 - i)
               * (2 * fs) ^ i * (- 1) ^ k
        else 0)"

definition bilinear :: "real list \<Rightarrow> real list \<Rightarrow> real \<Rightarrow> error + (real list \<times> real list)" where
  "bilinear b a fs =
     (let K = max (length b) (length a)
      in normalize_tf (map (bilinear_coeff b K fs) [0..<K]) (map (bilinear_coeff a K fs) [0..<K]))"

text \<open>
  \<^verbatim>\<open>scipy.signal.lfilter(b, a, x)\<close> on one row, from zero initial conditions:
  \<open>a[0] y[m] = b[0] x[m] + b[1] x[m-1] + ... - a[1] y[m-1] - ...\<close>. The state is
  the history of inputs \<open>xh\<close> and of outputs \<open>yh\<close>, most recent first; samples
  before the start of the row count as zero.
\<close>

definition dot :: "real list \<Rightarrow> real list \<Rightarrow> real" where
  "dot c h = sum_list (map2 (*) c h)"

fun lfilter_run :: "real list \<Rightarrow> real list \<Rightarrow> real list \<Rightarrow> real list \<Rightarrow> real list \<Rightarrow> real list" where
  "lfilter_run b a xh yh [] = []"
| "lfilter_run b a xh yh (x # xs) =
     (let y = (dot b (x # xh) - dot (tl a) yh) / hd a
      in y # lfilter_run b a (x # xh) (y # yh) xs)"

definition lfilter1 :: "real list \<Rightarrow> real list \<Rightarrow> real list \<Rightarrow> real list" where
  "lfilter1 b a xs = lfilter_run b a [] [] xs"

text \<open>
  \<^verbatim>\<open>lfilter(b, a, A)\<close> filters along the trailing axis: every row is filtered on
  its own, each from zero initial conditions. A zero \<open>a[0]\<close> is a \<^verbatim>\<open>ValueError\<close>.
\<close>

definition lfilter :: "real list \<Rightarrow> real list \<Rightarrow> real ndarray \<Rightarrow> error + real ndarray" where
  "lfilter b a A =
     (if a = [] \<or> hd a = 0 then Inl ValueError
      else Inr \<lparr>shape = shape A,
                data = concat (map (\<lambda>r. lfilter1 b a (row_at (last (shape A)) (data A) r))
                         [0..<prod_list (butlast (shape A))])\<rparr>)"

subsection \<open>The functions of the module\<close>

text \<open>
  \<open>average(data, sample_frequency, averaging_time)\<close>. \<^verbatim>\<open>data.shape[-1]\<close> raises
  for an array without axes. The block length \<open>n\<close> is an integer; \<^verbatim>\<open>samples // n\<close>
  is NumPy's integer floor division, which is \<open>0\<close> for \<open>n = 0\<close>.
\<close>

definition average :: "real ndarray \<Rightarrow> real \<Rightarrow> real \<Rightarrow> error + real ndarray" where
  "average A sample_frequency averaging_time =
     (if shape A = [] then Inl IndexError
      else
        let samples = last (shape A);
            n = \<lfloor>averaging_time * sample_frequency\<rfloor>;
            A1 = slice_last (n * (int samples div n)) A
        in (case reshape (map int (butlast (shape A1)) @ [- 1, n]) A1 of
              Inl e \<Rightarrow> Inl e
            | Inr A2 \<Rightarrow> Inr (mean_last A2)))"

text \<open>\<open>integrate(data, sample_frequency, integration_time)\<close>.\<close>

definition integrate :: "real ndarray \<Rightarrow> real \<Rightarrow> real \<Rightarrow> error + real ndarray" where
  "integrate A sample_frequency integration_time =
     (if shape A = [] then Inl IndexError
      else
        let samples = last (shape A);
            (b0, a0) = zpk2tf [1.0] [1.0, integration_time] 1.0
        in case bilinear b0 a0 sample_frequency of
             Inl e \<Rightarrow> Inl e
           | Inr (b, a) \<Rightarrow>
               (let n = \<lfloor>integration_time * sample_frequency\<rfloor>;
                    A1 = slice_last (n * (int samples div n)) A
                in (case reshape (map int (butlast (shape A1)) @ [- 1, n]) A1 of
                      Inl e \<Rightarrow> Inl e
                    | Inr A2 \<Rightarrow>
                        (case lfilter b a A2 of
                           Inl e \<Rightarrow> Inl e
                         | Inr Y \<Rightarrow>
                             (case index_last (n - 1) Y of
                                Inl e \<Rightarrow> Inl e
                              | Inr Z \<Rightarrow> Inr (map_array (\<lambda>y. y / integration_time) Z))))))"

text \<open>
  The two level converters. \<^verbatim>\<open>levels.shape[-1]\<close> is the length of the trailing axis
  of the levels.
\<close>

definition time_averaged_sound_level ::
  "real ndarray \<Rightarrow> real \<Rightarrow> real \<Rightarrow> real \<Rightarrow> error + (real list \<times> fval ndarray)" where
  "time_averaged_sound_level pressure sample_frequency averaging_time reference_pressure =
     (case average (map_array (\<lambda>p. p ^ 2) pressure) sample_frequency averaging_time of
        Inl e \<Rightarrow> Inl e
      | Inr E \<Rightarrow>
          let levels = map_array (\<lambda>e. fscale 10.0 (flog10 (fdiv e (reference_pressure ^ 2)))) E
          in if shape levels = [] then Inl IndexError
             else Inr (map (\<lambda>i. real i * averaging_time) [0..<last (shape levels)], levels))"

definition time_weighted_sound_level ::
  "real ndarray \<Rightarrow> real \<Rightarrow> real \<Rightarrow> real \<Rightarrow> error + (real list \<times> fval ndarray)" where
  "time_weighted_sound_level pressure sample_frequency integration_time reference_pressure =
     (case integrate (map_array (\<lambda>p. p ^ 2) pressure) sample_frequency integration_time of
        Inl e \<Rightarrow> Inl e
      | Inr E \<Rightarrow>
          let levels = map_array (\<lambda>e. fscale 10.0 (flog10 (fdiv e (reference_pressure ^ 2)))) E
          in if shape levels = [] then Inl IndexError
             else Inr (map (\<lambda>i. real i * integration_time) [0..<last (shape levels)], levels))"

definition fast :: "real ndarray \<Rightarrow> real \<Rightarrow> error + real ndarray" where
  "fast A fs = integrate A fs FAST"

definition slow :: "real ndarray \<Rightarrow> real \<Rightarrow> error + real ndarray" where
  "slow A fs = integrate A fs SLOW"

subsection \<open>Blocks of a signal\<close>


section \<open>Properties\<close>

subsection \<open>Rows and blocks of flat sequences\<close>














lemma zpk2tf_integrate:
  "zpk2tf [1] [1, t] 1 = ([1, - 1], [1, - 1 - t, t])"
  by (simp add: zpk2tf_def np_poly_def mul_linear_def)














lemma filter_neg_int: "filter (\<lambda>d. d < 0) (map int sh) = []"
  by (induction sh) auto

lemma filter_nonneg_int: "filter (\<lambda>d. 0 \<le> d) (map int sh) = map int sh"
  by (induction sh) auto

lemma reshape_fails:
  assumes "n \<le> 0 \<or> prod_list sh = 0"
  shows "reshape (map int sh @ [- 1, n]) A = Inl ValueError"
proof (cases "n < 0")
  case True
  then show ?thesis
    by (simp add: reshape_def filter_neg_int)
next
  case False
  have "prod_list (map (nat \<circ> int) sh) = prod_list sh"
    by (induction sh) auto
  with False assms show ?thesis
    by (auto simp add: reshape_def filter_neg_int filter_nonneg_int Let_def)
qed

lemma butlast_slice_last: "butlast (shape (slice_last stop A)) = butlast (shape A)"
  by (simp add: slice_last_def Let_def)

lemma average_Inr_D:
  assumes "average A fs T = Inr B"
  shows "shape A \<noteq> [] \<and> 0 < \<lfloor>T * fs\<rfloor> \<and> 0 < prod_list (butlast (shape A))"
proof -
  from assms have ne: "shape A \<noteq> []"
    by (auto simp add: average_def split: if_splits)
  have "\<not> (\<lfloor>T * fs\<rfloor> \<le> 0 \<or> prod_list (butlast (shape A)) = 0)"
  proof
    assume "\<lfloor>T * fs\<rfloor> \<le> 0 \<or> prod_list (butlast (shape A)) = 0"
    note rf = reshape_fails [OF this]
    from ne have "average A fs T = Inl ValueError"
      by (simp add: average_def Let_def butlast_slice_last rf)
    with assms show False by simp
  qed
  with ne show ?thesis by auto
qed

lemma integrate_Inr_D:
  assumes "integrate A fs t = Inr C"
  shows "shape A \<noteq> [] \<and> 0 < \<lfloor>t * fs\<rfloor> \<and> 0 < prod_list (butlast (shape A)) \<and>
         (\<exists>b a. bilinear [1, - 1] [1, - 1 - t, t] fs = Inr (b, a) \<and> a \<noteq> [] \<and> hd a \<noteq> 0)"
proof -
  from assms have ne: "shape A \<noteq> []"
    by (auto simp add: integrate_def split: if_splits)
  from assms ne obtain b a where des: "bilinear [1, - 1] [1, - 1 - t, t] fs = Inr (b, a)"
    by (auto simp add: integrate_def zpk2tf_integrate split: sum.splits)
  have nfail: "\<not> (\<lfloor>t * fs\<rfloor> \<le> 0 \<or> prod_list (butlast (shape A)) = 0)"
  proof
    assume "\<lfloor>t * fs\<rfloor> \<le> 0 \<or> prod_list (butlast (shape A)) = 0"
    note rf = reshape_fails [OF this]
    from ne des have "integrate A fs t = Inl ValueError"
      by (simp add: integrate_def zpk2tf_integrate Let_def butlast_slice_last rf)
    with assms show False by simp
  qed
  have "a \<noteq> [] \<and> hd a \<noteq> 0"
  proof (rule ccontr)
    assume "\<not> (a \<noteq> [] \<and> hd a \<noteq> 0)"
    then have "lfilter b a Y = Inl ValueError" for Y
      by (auto simp add: lfilter_def)
    with ne des have "\<exists>e. integrate A fs t = Inl e"
      by (simp add: integrate_def zpk2tf_integrate Let_def split: sum.splits)
    with assms show False by auto
  qed
  with ne nfail des show ?thesis by auto
qed


subsection \<open>The tables\<close>

text \<open>
  C9. The four tables have 34 entries each, every entry of \<open>WEIGHTING_Z\<close> is zero,
  and at every index where the nominal frequency is 1000 Hz (there is exactly one,
  index 20) the A and the C weighting are both zero.
\<close>

theorem weighting_tables:
  "length NOMINAL_FREQUENCIES = 34 \<and> length WEIGHTING_A = 34 \<and>
   length WEIGHTING_C = 34 \<and> length WEIGHTING_Z = 34 \<and>
   list_all (\<lambda>w. w = 0) WEIGHTING_Z \<and>
   filter (\<lambda>i. NOMINAL_FREQUENCIES ! i = 1000) [0..<34] = [20] \<and>
   WEIGHTING_A ! 20 = 0 \<and> WEIGHTING_C ! 20 = 0"
  by (simp add: NOMINAL_FREQUENCIES_def WEIGHTING_A_def WEIGHTING_C_def WEIGHTING_Z_def
        upt_rec [of _ "numeral _"])

subsection \<open>The block averager\<close>



subsection \<open>The exponential integrator\<close>



subsection \<open>Number of blocks and discarded samples\<close>



subsection \<open>No usable block\<close>




end
